theory Spec2Isabelle
  imports Main
begin

section \<open>The browser environment seen by the script\<close>

text \<open>
  The repository holds two variants of one script: \<^verbatim>\<open>src/js/main.js\<close> and an unnamed
  second file. Their theme managers differ in \<^verbatim>\<open>getInitialTheme\<close> (which media query is
  asked, and which theme is the fall-back) and in the bytes of the two glyph literals;
  everything else in the theme manager is the same text. The model takes the variant as
  a parameter.
\<close>

datatype variant = Main_js | Part_000

text \<open>
  A JavaScript exception. Reading an unresolvable global (\<^verbatim>\<open>localStorage\<close> where the
  storage API does not exist) is a ReferenceError; writing a property of \<^verbatim>\<open>null\<close> or
  calling a method an object does not have is a TypeError; \<^verbatim>\<open>querySelector\<close> raises a
  SyntaxError on a string that is not a selector; \<^verbatim>\<open>setItem\<close> raises a
  QuotaExceededError when the store does not take the write.
\<close>

datatype js_error = ReferenceError | TypeError | SyntaxError | QuotaExceededError

text \<open>
  The element found by \<^verbatim>\<open>document.querySelector('.theme-toggle')\<close>. Each field is the
  \<^verbatim>\<open>textContent\<close> of the sub-element found by \<^verbatim>\<open>toggle.querySelector\<close>, and \<open>None\<close>
  when that query returns \<^verbatim>\<open>null\<close>.
\<close>

record toggle_control =
  icon_el :: "string option"
  text_el :: "string option"

text \<open>
  The per-origin store: its entries, and which writes it takes (\<open>accepts key value\<close>; a
  store that is full or that allows no writing takes none).
\<close>

record storage =
  items :: "string \<rightharpoonup> string"
  accepts :: "string \<Rightarrow> string \<Rightarrow> bool"

text \<open>
  \<^verbatim>\<open>window.matchMedia\<close>: the \<^verbatim>\<open>matches\<close> flag of the list it returns for a media query,
  and whether that list has the \<^verbatim>\<open>addEventListener\<close> method (older browsers offer only
  \<^verbatim>\<open>addListener\<close>).
\<close>

record media_api =
  query_matches :: "string \<Rightarrow> bool"
  has_addEventListener :: bool

text \<open>
  What the theme manager reads and writes.
  \<^item> \<open>localStorage\<close>: the store, \<open>None\<close> when the storage API is absent;
  \<^item> \<open>matchMedia\<close>: \<^verbatim>\<open>window.matchMedia\<close>, \<open>None\<close> when absent;
  \<^item> \<open>data_theme\<close>: the \<^verbatim>\<open>data-theme\<close> attribute of the root element;
  \<^item> \<open>theme_toggle\<close>: the toggle control, \<open>None\<close> when the page has none;
  \<^item> \<open>change_listener\<close>, \<open>click_listener\<close>: whether \<^verbatim>\<open>init\<close> has registered the
    media-query listener and the click listener (the script calls \<^verbatim>\<open>init\<close> once).
\<close>

record browser =
  localStorage :: "storage option"
  matchMedia :: "media_api option"
  data_theme :: "string option"
  theme_toggle :: "toggle_control option"
  change_listener :: bool
  click_listener :: bool

text \<open>
  A call returns normally (\<open>Inr\<close>) or throws (\<open>Inl\<close>); either way it leaves a state
  behind, since the writes made before a throw are not undone.
\<close>

type_synonym 'a outcome = "(js_error + 'a) \<times> browser"

text \<open>The truthiness of what \<^verbatim>\<open>getItem\<close> returns: \<^verbatim>\<open>null\<close> and the empty string are falsy.\<close>

definition truthy :: "string option \<Rightarrow> bool" where
  "truthy v = (case v of None \<Rightarrow> False | Some s \<Rightarrow> s \<noteq> [])"

text \<open>The value of \<^verbatim>\<open>window.matchMedia && window.matchMedia(q).matches\<close>.\<close>

definition media_matches :: "browser \<Rightarrow> string \<Rightarrow> bool" where
  "media_matches b q = (case matchMedia b of None \<Rightarrow> False | Some api \<Rightarrow> query_matches api q)"

definition prefers_light :: string where
  "prefers_light = ''(prefers-color-scheme: light)''"

definition prefers_dark :: string where
  "prefers_dark = ''(prefers-color-scheme: dark)''"

section \<open>ThemeManager\<close>

text \<open>
  \<^verbatim>\<open>getInitialTheme\<close>: the stored theme when truthy; else the variant's media query;
  else the variant's fall-back. It writes nothing.
\<close>

definition getInitialTheme :: "variant \<Rightarrow> browser \<Rightarrow> js_error + string" where
  "getInitialTheme v b =
     (case localStorage b of
        None \<Rightarrow> Inl ReferenceError
      | Some st \<Rightarrow>
          (let fromSystem =
                 (case v of
                    Main_js \<Rightarrow> if media_matches b prefers_light then ''light'' else ''dark''
                  | Part_000 \<Rightarrow> if media_matches b prefers_dark then ''dark'' else ''light'')
           in case items st ''theme'' of
                None \<Rightarrow> Inr fromSystem
              | Some storedTheme \<Rightarrow> if storedTheme \<noteq> [] then Inr storedTheme else Inr fromSystem))"

text \<open>
  The glyph literals, as the bytes of each source file (a sun for the dark theme, a moon
  for the light one).
\<close>

definition sun_glyph :: "variant \<Rightarrow> string" where
  "sun_glyph v =
     (case v of
        Main_js \<Rightarrow> [CHR 0xE2, CHR 0x98, CHR 0x80, CHR 0xEF, CHR 0xB8, CHR 0x8F]
      | Part_000 \<Rightarrow> [CHR 0xC3, CHR 0xA2, CHR 0xCB, CHR 0x9C, CHR 0xE2, CHR 0x82, CHR 0xAC,
                     CHR 0xC3, CHR 0xAF, CHR 0xC2, CHR 0xB8])"

definition moon_glyph :: "variant \<Rightarrow> string" where
  "moon_glyph v =
     (case v of
        Main_js \<Rightarrow> [CHR 0xF0, CHR 0x9F, CHR 0x8C, CHR 0x99]
      | Part_000 \<Rightarrow> [CHR 0xC3, CHR 0xB0, CHR 0xC5, CHR 0xB8, CHR 0xC5, CHR 0x92, CHR 0xE2,
                     CHR 0x84, CHR 0xA2])"

text \<open>
  \<^verbatim>\<open>updateToggleButton\<close>: returns at once without a toggle control; otherwise writes the
  icon with no check (a TypeError when the icon sub-element is missing, before the label
  is touched), and the label only when it exists.
\<close>

definition updateToggleButton :: "variant \<Rightarrow> string \<Rightarrow> browser \<Rightarrow> unit outcome" where
  "updateToggleButton v theme b =
     (case theme_toggle b of
        None \<Rightarrow> (Inr (), b)
      | Some toggle \<Rightarrow>
          (case icon_el toggle of
             None \<Rightarrow> (Inl TypeError, b)
           | Some _ \<Rightarrow>
               (if theme = ''dark''
                then (Inr (), b\<lparr>theme_toggle := Some (toggle\<lparr>icon_el := Some (sun_glyph v),
                        text_el := map_option (\<lambda>_. ''Light'') (text_el toggle)\<rparr>)\<rparr>)
                else (Inr (), b\<lparr>theme_toggle := Some (toggle\<lparr>icon_el := Some (moon_glyph v),
                        text_el := map_option (\<lambda>_. ''Dark'') (text_el toggle)\<rparr>)\<rparr>))))"

text \<open>
  \<^verbatim>\<open>applyTheme\<close>: sets the root attribute, then stores the theme, then updates the
  toggle control. \<^verbatim>\<open>localStorage.setItem\<close> is not guarded: without the storage API it is
  a ReferenceError, with a store that does not take the write a QuotaExceededError; in
  both cases the attribute is already set, nothing is stored and the toggle control is
  not reached.
\<close>

definition applyTheme :: "variant \<Rightarrow> string \<Rightarrow> browser \<Rightarrow> unit outcome" where
  "applyTheme v theme b =
     (let b1 = b\<lparr>data_theme := Some theme\<rparr> in
      case localStorage b1 of
        None \<Rightarrow> (Inl ReferenceError, b1)
      | Some st \<Rightarrow>
          if accepts st ''theme'' theme
          then updateToggleButton v theme
                 (b1\<lparr>localStorage := Some (st\<lparr>items := (items st)(''theme'' \<mapsto> theme)\<rparr>)\<rparr>)
          else (Inl QuotaExceededError, b1))"

text \<open>\<^verbatim>\<open>toggleTheme\<close>: \<^verbatim>\<open>getAttribute\<close> returns \<^verbatim>\<open>null\<close> for an absent attribute.\<close>

definition toggleTheme :: "variant \<Rightarrow> browser \<Rightarrow> unit outcome" where
  "toggleTheme v b =
     (let currentTheme = data_theme b;
          newTheme = (if currentTheme = Some ''dark'' then ''light'' else ''dark'')
      in applyTheme v newTheme b)"

text \<open>
  The listener that \<^verbatim>\<open>watchSystemTheme\<close> registers; \<open>matches\<close> is \<^verbatim>\<open>e.matches\<close> of the
  change event of the dark-mode query.
\<close>

definition systemThemeChanged :: "variant \<Rightarrow> bool \<Rightarrow> browser \<Rightarrow> unit outcome" where
  "systemThemeChanged v matches b =
     (case localStorage b of
        None \<Rightarrow> (Inl ReferenceError, b)
      | Some st \<Rightarrow>
          (let storedTheme = items st ''theme'' in
           if \<not> truthy storedTheme
           then (let newTheme = (if matches then ''dark'' else ''light'') in applyTheme v newTheme b)
           else (Inr (), b)))"

text \<open>
  \<^verbatim>\<open>watchSystemTheme\<close>: returns at once without \<^verbatim>\<open>window.matchMedia\<close>; otherwise calls
  \<^verbatim>\<open>addEventListener\<close> on the query list with no check, a TypeError when the list does
  not have the method.
\<close>

definition watchSystemTheme :: "browser \<Rightarrow> unit outcome" where
  "watchSystemTheme b =
     (case matchMedia b of
        None \<Rightarrow> (Inr (), b)
      | Some darkModeQuery \<Rightarrow>
          if has_addEventListener darkModeQuery then (Inr (), b\<lparr>change_listener := True\<rparr>)
          else (Inl TypeError, b))"

text \<open>\<^verbatim>\<open>ThemeManager.init\<close>: a throw in a step skips the steps after it.\<close>

definition ThemeManager_init :: "variant \<Rightarrow> browser \<Rightarrow> unit outcome" where
  "ThemeManager_init v b =
     (case getInitialTheme v b of
        Inl e \<Rightarrow> (Inl e, b)
      | Inr initialTheme \<Rightarrow>
          (case applyTheme v initialTheme b of
             (Inl e, b1) \<Rightarrow> (Inl e, b1)
           | (Inr _, b1) \<Rightarrow>
               (case watchSystemTheme b1 of
                  (Inl e, b2) \<Rightarrow> (Inl e, b2)
                | (Inr _, b2) \<Rightarrow>
                    (case theme_toggle b2 of
                       None \<Rightarrow> (Inr (), b2)
                     | Some _ \<Rightarrow> (Inr (), b2\<lparr>click_listener := True\<rparr>)))))"

text \<open>
  The two events the theme manager listens to. The browser calls a listener only when it
  is registered; an exception thrown by a listener is reported by the browser and the
  page goes on from the state the listener left.
\<close>

datatype event = ToggleClick | SystemThemeChange bool

fun dispatch :: "variant \<Rightarrow> event \<Rightarrow> browser \<Rightarrow> browser" where
  "dispatch v ToggleClick b = (if click_listener b then snd (toggleTheme v b) else b)"
| "dispatch v (SystemThemeChange matches) b =
     (if change_listener b then snd (systemThemeChanged v matches b) else b)"

definition run :: "variant \<Rightarrow> event list \<Rightarrow> browser \<Rightarrow> browser" where
  "run v evs b = fold (dispatch v) evs b"

text \<open>The value stored under the \<^verbatim>\<open>theme\<close> key, \<open>None\<close> without storage or without the key.\<close>

definition stored_theme :: "browser \<Rightarrow> string option" where
  "stored_theme b = (case localStorage b of None \<Rightarrow> None | Some st \<Rightarrow> items st ''theme'')"

text \<open>Whether there is a store and it takes the write of a theme.\<close>

definition takes_theme :: "browser \<Rightarrow> string \<Rightarrow> bool" where
  "takes_theme b theme = (case localStorage b of None \<Rightarrow> False | Some st \<Rightarrow> accepts st ''theme'' theme)"

text \<open>Whether the toggle control, when the page has one, has its icon sub-element.\<close>

definition toggle_has_icon :: "browser \<Rightarrow> bool" where
  "toggle_has_icon b = (case theme_toggle b of None \<Rightarrow> True | Some toggle \<Rightarrow> icon_el toggle \<noteq> None)"


section \<open>Smooth scrolling for anchor links\<close>

type_synonym element = nat

text \<open>
  The part of the document that \<^verbatim>\<open>document.querySelector\<close> is asked about: the elements
  that have an \<^verbatim>\<open>id\<close> attribute, in document order, each with its id; and what the query
  returns on a string that is not a lone id selector (a compound or complex selector, or
  a string that is no selector at all).
\<close>

record page_document =
  element_ids :: "(element \<times> string) list"
  select_other :: "string \<Rightarrow> js_error + element option"

text \<open>
  CSS identifiers without escapes: a name-start character (a letter, \<^verbatim>\<open>_\<close>, or a
  character outside ASCII) followed by name characters (those, digits and \<^verbatim>\<open>-\<close>), or
  \<^verbatim>\<open>-\<close> followed by a name-start character or a second \<^verbatim>\<open>-\<close> and then name characters.
\<close>

definition is_digit :: "char \<Rightarrow> bool" where
  "is_digit c = (let n = (of_char c :: nat) in 48 \<le> n \<and> n \<le> 57)"

definition name_start :: "char \<Rightarrow> bool" where
  "name_start c =
     (let n = (of_char c :: nat)
      in (65 \<le> n \<and> n \<le> 90) \<or> (97 \<le> n \<and> n \<le> 122) \<or> n = 95 \<or> 128 \<le> n)"

definition name_char :: "char \<Rightarrow> bool" where
  "name_char c = (name_start c \<or> is_digit c \<or> c = CHR ''-'')"

fun css_identifier :: "string \<Rightarrow> bool" where
  "css_identifier [] = False"
| "css_identifier (c # cs) =
     (if c = CHR ''-''
      then (case cs of
              [] \<Rightarrow> False
            | d # ds \<Rightarrow> (name_start d \<or> d = CHR ''-'') \<and> list_all name_char ds)
      else name_start c \<and> list_all name_char cs)"

text \<open>
  \<^verbatim>\<open>document.querySelector\<close>. The string \<^verbatim>\<open>#\<close> followed by an identifier is an id
  selector and finds the first element with that id, \<^verbatim>\<open>null\<close> when there is none. The
  empty string, \<^verbatim>\<open>#\<close> alone and \<^verbatim>\<open>#\<close> followed by a digit are not selectors, and the
  query throws. Every other string is left to \<open>select_other\<close>.
\<close>

definition querySelector :: "page_document \<Rightarrow> string \<Rightarrow> js_error + element option" where
  "querySelector doc selector =
     (case selector of
        [] \<Rightarrow> Inl SyntaxError
      | c # name \<Rightarrow>
          if c = CHR ''#'' \<and> css_identifier name
          then Inr (map_option fst (find (\<lambda>entry. snd entry = name) (element_ids doc)))
          else if c = CHR ''#'' \<and> (case name of [] \<Rightarrow> True | d # _ \<Rightarrow> is_digit d)
          then Inl SyntaxError
          else select_other doc selector)"

text \<open>
  What a click on an anchor leaves behind: whether \<^verbatim>\<open>preventDefault\<close> was called, and
  the calls of \<^verbatim>\<open>scrollIntoView\<close> (the target with the \<^verbatim>\<open>behavior\<close> and \<^verbatim>\<open>block\<close> options).
\<close>

record click_result =
  defaultPrevented :: bool
  scrolled :: "(element \<times> string \<times> string) list"

text \<open>
  \<^verbatim>\<open>initSmoothScroll\<close> puts the click listener on the anchors selected by
  \<^verbatim>\<open>a[href^="#"]\<close>; \<open>anchors\<close> is the anchors of the page that have an href, each with it.
\<close>

definition initSmoothScroll :: "(element \<times> string) list \<Rightarrow> element list" where
  "initSmoothScroll anchors = map fst (filter (\<lambda>anchor. take 1 (snd anchor) = ''#'') anchors)"

text \<open>
  The click listener; \<open>href\<close> is what \<^verbatim>\<open>getAttribute('href')\<close> returns at the click. The
  href is handed to \<^verbatim>\<open>document.querySelector\<close> as it is, after \<^verbatim>\<open>preventDefault\<close>.
\<close>

definition anchorClicked :: "page_document \<Rightarrow> string \<Rightarrow> (js_error + unit) \<times> click_result" where
  "anchorClicked doc href =
     (if href = ''#'' then (Inr (), \<lparr>defaultPrevented = False, scrolled = []\<rparr>)
      else (case querySelector doc href of
              Inl e \<Rightarrow> (Inl e, \<lparr>defaultPrevented = True, scrolled = []\<rparr>)
            | Inr None \<Rightarrow> (Inr (), \<lparr>defaultPrevented = True, scrolled = []\<rparr>)
            | Inr (Some target) \<Rightarrow>
                (Inr (), \<lparr>defaultPrevented = True,
                          scrolled = [(target, ''smooth'', ''start'')]\<rparr>)))"

section \<open>Footer year\<close>


section \<open>Scroll animations\<close>

text \<open>
  The observer and the part of the page it touches.
  \<^item> \<open>observed\<close>: the observation targets of the one IntersectionObserver;
  \<^item> \<open>classList\<close>: the class tokens of each element;
  \<^item> \<open>opacity\<close>: the inline \<^verbatim>\<open>style.opacity\<close> of each element, \<open>None\<close> when unset.
  The \<^verbatim>\<open>animationDelay\<close> that \<^verbatim>\<open>main.js\<close> also writes is a formatted floating-point
  product; no listener reads it and it is left out.
\<close>

record reveal_state =
  observed :: "element list"
  classList :: "element \<Rightarrow> string list"
  opacity :: "element \<Rightarrow> string option"

text \<open>\<^verbatim>\<open>DOMTokenList.add\<close>: a token already in the list is not added again.\<close>

definition classList_add :: "string \<Rightarrow> string list \<Rightarrow> string list" where
  "classList_add c cs = (if c \<in> set cs then cs else cs @ [c])"

text \<open>\<^verbatim>\<open>observer.observe\<close> and \<^verbatim>\<open>observer.unobserve\<close>: observing a target twice keeps one.\<close>

definition observe :: "element \<Rightarrow> reveal_state \<Rightarrow> reveal_state" where
  "observe el s = (if el \<in> set (observed s) then s else s\<lparr>observed := observed s @ [el]\<rparr>)"

definition unobserve :: "element \<Rightarrow> reveal_state \<Rightarrow> reveal_state" where
  "unobserve el s = s\<lparr>observed := removeAll el (observed s)\<rparr>"

text \<open>One round of \<^verbatim>\<open>entries.forEach\<close>; an entry is its target and its \<^verbatim>\<open>isIntersecting\<close>.\<close>

fun onEntry :: "element \<times> bool \<Rightarrow> reveal_state \<Rightarrow> reveal_state" where
  "onEntry (target, isIntersecting) s =
     (if isIntersecting
      then unobserve target
             (s\<lparr>classList := (classList s)(target := classList_add ''animate-fade-in'' (classList s target))\<rparr>)
      else s)"

definition intersectionCallback :: "(element \<times> bool) list \<Rightarrow> reveal_state \<Rightarrow> reveal_state" where
  "intersectionCallback entries s = fold onEntry entries s"

text \<open>
  \<^verbatim>\<open>initScrollAnimations\<close>. \<open>candidates\<close> is the elements in the order the script walks
  them: in \<^verbatim>\<open>main.js\<close> the project cards, then the skill items, then the contact items
  (three \<^verbatim>\<open>querySelectorAll\<close> results, one after the other), each element getting opacity
  \<^verbatim>\<open>'0'\<close> before it is observed; in the other variant the result of its one
  \<^verbatim>\<open>querySelectorAll\<close>, each element only observed. \<open>classes\<close> and \<open>opacities\<close> are the
  class tokens and the inline opacity the elements have before the call.
\<close>

definition initScrollAnimations ::
    "variant \<Rightarrow> element list \<Rightarrow> (element \<Rightarrow> string list) \<Rightarrow> (element \<Rightarrow> string option) \<Rightarrow> reveal_state" where
  "initScrollAnimations v candidates classes opacities =
     fold (\<lambda>el s. observe el (case v of Main_js \<Rightarrow> s\<lparr>opacity := (opacity s)(el \<mapsto> ''0'')\<rparr>
                                 | Part_000 \<Rightarrow> s))
       candidates
       \<lparr>observed = [], classList = classes, opacity = opacities\<rparr>"

text \<open>
  The browser reports a batch of entries to the callback. It makes entries for the
  targets under observation only, so an entry for any other element never reaches the
  callback; one batch may hold several entries for one target.
\<close>

definition notify :: "(element \<times> bool) list \<Rightarrow> reveal_state \<Rightarrow> reveal_state" where
  "notify batch s = intersectionCallback (filter (\<lambda>entry. fst entry \<in> set (observed s)) batch) s"

definition notifications :: "(element \<times> bool) list list \<Rightarrow> reveal_state \<Rightarrow> reveal_state" where
  "notifications batches s = fold notify batches s"

section \<open>Decorative effects (\<^verbatim>\<open>main.js\<close> only)\<close>




section \<open>Form handling\<close>

text \<open>
  A control of the form: the value it shows and the default value its markup gives it.
  \<^verbatim>\<open>HTMLFormElement.reset()\<close> puts every control back to its default value.
\<close>

record form_field =
  field_value :: string
  default_value :: string

definition reset :: "form_field list \<Rightarrow> form_field list" where
  "reset form = map (\<lambda>f. f\<lparr>field_value := default_value f\<rparr>) form"

definition acknowledgement :: string where
  "acknowledgement = ''Thank you for your message! I'' @ [CHR 0x27] @ ''ll get back to you soon.''"

text \<open>
  What a submission leaves behind: whether \<^verbatim>\<open>preventDefault\<close> was called, the messages
  shown by \<^verbatim>\<open>alert\<close> in order, and the controls.
\<close>

record submit_result =
  submitPrevented :: bool
  alerts :: "string list"
  controls :: "form_field list"


text \<open>The submit listener.\<close>

definition formSubmitted :: "form_field list \<Rightarrow> submit_result" where
  "formSubmitted form =
     \<lparr>submitPrevented = True, alerts = [acknowledgement], controls = reset form\<rparr>"

text \<open>
  The browser sends the form (a network request) after the listeners have run unless
  one of them has called \<^verbatim>\<open>preventDefault\<close>.
\<close>

definition request_sent :: "submit_result \<Rightarrow> bool" where
  "request_sent r = (\<not> submitPrevented r)"

section \<open>Example pages\<close>

definition open_store :: storage where
  "open_store = \<lparr>items = Map.empty, accepts = (\<lambda>key value. True)\<rparr>"

definition fresh_page :: browser where
  "fresh_page = \<lparr>localStorage = Some open_store, matchMedia = None, data_theme = None,
     theme_toggle = None, change_listener = False, click_listener = False\<rparr>"

definition no_storage_page :: browser where
  "no_storage_page = fresh_page\<lparr>localStorage := None\<rparr>"

definition full_page :: browser where
  "full_page = fresh_page\<lparr>
     matchMedia := Some \<lparr>query_matches = (\<lambda>q. q = prefers_dark), has_addEventListener = True\<rparr>,
     theme_toggle := Some \<lparr>icon_el = Some ''?'', text_el = Some ''?''\<rparr>\<rparr>"

definition iconless_page :: browser where
  "iconless_page = fresh_page\<lparr>theme_toggle := Some \<lparr>icon_el = None, text_el = Some ''Dark''\<rparr>\<rparr>"

definition labelless_page :: browser where
  "labelless_page = fresh_page\<lparr>theme_toggle := Some \<lparr>icon_el = Some ''?'', text_el = None\<rparr>\<rparr>"

definition dark_page :: browser where
  "dark_page = fresh_page\<lparr>data_theme := Some ''dark''\<rparr>"

definition sepia_page :: browser where
  "sepia_page = fresh_page\<lparr>localStorage := Some (open_store\<lparr>items := [''theme'' \<mapsto> ''sepia'']\<rparr>)\<rparr>"

definition stuck_sepia_page :: browser where
  "stuck_sepia_page = fresh_page\<lparr>localStorage :=
     Some \<lparr>items = [''theme'' \<mapsto> ''sepia''], accepts = (\<lambda>key value. False)\<rparr>\<rparr>"

definition light_os_page :: browser where
  "light_os_page = fresh_page\<lparr>
     matchMedia := Some \<lparr>query_matches = (\<lambda>q. q = prefers_light), has_addEventListener = True\<rparr>\<rparr>"

definition light_os_no_storage_page :: browser where
  "light_os_no_storage_page = light_os_page\<lparr>localStorage := None\<rparr>"

definition loaded_page :: browser where
  "loaded_page = snd (ThemeManager_init Main_js full_page)"

definition two_cards :: reveal_state where
  "two_cards = initScrollAnimations Main_js [1, 2] (\<lambda>_. []) (\<lambda>_. None)"

definition about_document :: page_document where
  "about_document = \<lparr>element_ids = [(7, ''about''), (8, ''1abc'')],
     select_other = (\<lambda>selector. Inr None)\<rparr>"

definition prefilled_form :: "form_field list" where
  "prefilled_form = [\<lparr>field_value = ''hello'', default_value = ''Your message''\<rparr>]"

definition blank_form :: "form_field list" where
  "blank_form = [\<lparr>field_value = ''Ann'', default_value = []\<rparr>,
                 \<lparr>field_value = ''hello'', default_value = []\<rparr>]"

section \<open>Properties of the theme manager\<close>

lemmas theme_defs = getInitialTheme_def applyTheme_def updateToggleButton_def toggleTheme_def
  systemThemeChanged_def watchSystemTheme_def ThemeManager_init_def stored_theme_def truthy_def
  media_matches_def takes_theme_def

lemmas page_defs = open_store_def fresh_page_def no_storage_page_def full_page_def
  iconless_page_def labelless_page_def dark_page_def sepia_page_def stuck_sepia_page_def
  light_os_page_def
  light_os_no_storage_page_def prefers_dark_def prefers_light_def

text \<open>
  C3, as the claim has it, fails: on a page without the storage API, where nothing is
  persisted and the system reports light, \<^verbatim>\<open>getInitialTheme\<close> returns nothing in either
  variant; the unguarded read of \<^verbatim>\<open>localStorage\<close> throws.
\<close>

theorem getInitialTheme_without_storage:
  "getInitialTheme Main_js light_os_no_storage_page = Inl ReferenceError
   \<and> getInitialTheme Part_000 light_os_no_storage_page = Inl ReferenceError"
  by (simp add: getInitialTheme_def page_defs)

text \<open>
  C3, amended. Without the storage API \<^verbatim>\<open>getInitialTheme\<close> throws a ReferenceError.
  With it: a stored theme that is present (a non-empty string, which is what the code's
  truthiness test accepts) is returned; without one, a system that reports light (the
  light query matches and the dark one does not) gives \<^verbatim>\<open>light\<close> and one that reports
  dark gives \<^verbatim>\<open>dark\<close>, in both variants; with no signal (no \<^verbatim>\<open>matchMedia\<close>, or neither
  query matching) \<^verbatim>\<open>main.js\<close> gives \<^verbatim>\<open>dark\<close> and the other variant \<^verbatim>\<open>light\<close>.
\<close>

theorem getInitialTheme_policy:
  "(localStorage b = None \<longrightarrow> getInitialTheme v b = Inl ReferenceError)
   \<and> (localStorage b = Some st \<longrightarrow>
        (items st ''theme'' = Some s \<and> s \<noteq> [] \<longrightarrow> getInitialTheme v b = Inr s)
        \<and> (\<not> truthy (items st ''theme'') \<and> media_matches b prefers_light
              \<and> \<not> media_matches b prefers_dark
            \<longrightarrow> getInitialTheme v b = Inr ''light'')
        \<and> (\<not> truthy (items st ''theme'') \<and> media_matches b prefers_dark
              \<and> \<not> media_matches b prefers_light
            \<longrightarrow> getInitialTheme v b = Inr ''dark'')
        \<and> (\<not> truthy (items st ''theme'') \<and> \<not> media_matches b prefers_light
              \<and> \<not> media_matches b prefers_dark
            \<longrightarrow> getInitialTheme Main_js b = Inr ''dark''
                \<and> getInitialTheme Part_000 b = Inr ''light''))"
  by (cases v) (auto simp: getInitialTheme_def truthy_def Let_def split: option.splits)

theorem getInitialTheme_policy_witness:
  "localStorage no_storage_page = None
   \<and> getInitialTheme Main_js no_storage_page = Inl ReferenceError
   \<and> getInitialTheme Part_000 sepia_page = Inr ''sepia''
   \<and> getInitialTheme Part_000 light_os_page = Inr ''light''
   \<and> getInitialTheme Main_js full_page = Inr ''dark''
   \<and> getInitialTheme Main_js fresh_page = Inr ''dark''
   \<and> getInitialTheme Part_000 fresh_page = Inr ''light''"
proof -
  have s0: "localStorage no_storage_page = None" by (simp add: page_defs)
  have s1: "localStorage sepia_page = Some (open_store\<lparr>items := [''theme'' \<mapsto> ''sepia'']\<rparr>)"
    by (simp add: sepia_page_def fresh_page_def)
  have s2: "localStorage light_os_page = Some open_store"
    and s3: "localStorage full_page = Some open_store"
    and s4: "localStorage fresh_page = Some open_store"
    by (simp_all add: light_os_page_def full_page_def fresh_page_def)
  have m2: "media_matches light_os_page prefers_light \<and> \<not> media_matches light_os_page prefers_dark"
    and m3: "media_matches full_page prefers_dark \<and> \<not> media_matches full_page prefers_light"
    and m4: "\<not> media_matches fresh_page prefers_light \<and> \<not> media_matches fresh_page prefers_dark"
    by (simp_all add: page_defs media_matches_def)
  have e: "\<not> truthy (items open_store ''theme'')" by (simp add: truthy_def open_store_def)
  have i: "items (open_store\<lparr>items := [''theme'' \<mapsto> ''sepia'']\<rparr>) ''theme'' = Some ''sepia''
           \<and> ''sepia'' \<noteq> []"
    by simp
  show ?thesis
    using s0 getInitialTheme_policy [where b = no_storage_page and v = Main_js]
      getInitialTheme_policy [where b = sepia_page and v = Part_000 and s = "''sepia''"
        and st = "open_store\<lparr>items := [''theme'' \<mapsto> ''sepia'']\<rparr>"]
      getInitialTheme_policy [where b = light_os_page and v = Part_000 and st = open_store]
      getInitialTheme_policy [where b = full_page and v = Main_js and st = open_store]
      getInitialTheme_policy [where b = fresh_page and st = open_store]
      s1 s2 s3 s4 m2 m3 m4 e i
    by simp
qed

text \<open>
  C4. For a theme \<open>T\<close> that is \<^verbatim>\<open>light\<close> or \<^verbatim>\<open>dark\<close>: when \<^verbatim>\<open>applyTheme(T)\<close> returns, the
  root attribute reads \<open>T\<close> and the value stored under \<^verbatim>\<open>theme\<close> is \<open>T\<close>.
\<close>

theorem applyTheme_sets_attribute_and_storage:
  assumes "T \<in> {''light'', ''dark''}" and "applyTheme v T b = (Inr (), b')"
  shows "data_theme b' = Some T \<and> stored_theme b' = Some T"
  using assms(2)
  by (auto simp: applyTheme_def updateToggleButton_def stored_theme_def Let_def
      split: option.splits if_splits)

theorem applyTheme_sets_attribute_and_storage_witness:
  "''dark'' \<in> {''light'', ''dark''}
   \<and> fst (applyTheme Main_js ''dark'' full_page) = Inr ()
   \<and> data_theme (snd (applyTheme Main_js ''dark'' full_page)) = Some ''dark''
   \<and> stored_theme (snd (applyTheme Main_js ''dark'' full_page)) = Some ''dark''"
proof -
  have h1: "''dark'' \<in> {''light'', ''dark''}" by simp
  have h2: "fst (applyTheme Main_js ''dark'' full_page) = Inr ()"
    by (simp add: applyTheme_def updateToggleButton_def page_defs)
  then have h3: "applyTheme Main_js ''dark'' full_page
                   = (Inr (), snd (applyTheme Main_js ''dark'' full_page))"
    by (metis prod.collapse)
  show ?thesis
    using h1 h2 applyTheme_sets_attribute_and_storage [OF h1 h3] by simp
qed

subsection \<open>What \<^verbatim>\<open>applyTheme\<close> writes\<close>

lemma applyTheme_attribute: "data_theme (snd (applyTheme v theme b)) = Some theme"
  by (auto simp: applyTheme_def updateToggleButton_def Let_def split: option.splits)

lemma applyTheme_stores:
  "takes_theme b theme \<Longrightarrow> stored_theme (snd (applyTheme v theme b)) = Some theme"
  by (auto simp: applyTheme_def updateToggleButton_def stored_theme_def takes_theme_def Let_def
      split: option.splits)

lemma applyTheme_refused:
  "\<not> takes_theme b theme \<Longrightarrow> stored_theme (snd (applyTheme v theme b)) = stored_theme b"
  by (auto simp: applyTheme_def stored_theme_def takes_theme_def Let_def split: option.splits)

lemma applyTheme_returned:
  "fst (applyTheme v theme b) = Inr () \<Longrightarrow> takes_theme b theme"
  by (auto simp: applyTheme_def takes_theme_def Let_def split: option.splits if_splits)

lemma applyTheme_storage_kept:
  "(localStorage (snd (applyTheme v theme b)) = None) = (localStorage b = None)"
  by (auto simp: applyTheme_def updateToggleButton_def Let_def split: option.splits)

text \<open>
  C5. From a root attribute that is \<^verbatim>\<open>light\<close> or \<^verbatim>\<open>dark\<close>, two calls of \<^verbatim>\<open>toggleTheme\<close>
  bring the attribute back to where it was, whether or not the calls throw (the
  attribute is written before anything can throw); and when the second call returns,
  the stored theme is that value too.
\<close>

theorem toggleTheme_twice:
  assumes "data_theme b = Some T" and "T \<in> {''light'', ''dark''}"
  shows "data_theme (snd (toggleTheme v (snd (toggleTheme v b)))) = Some T
       \<and> (fst (toggleTheme v (snd (toggleTheme v b))) = Inr () \<longrightarrow>
            stored_theme (snd (toggleTheme v (snd (toggleTheme v b)))) = Some T)"
proof -
  have flip: "data_theme (snd (toggleTheme v b)) = Some (if T = ''dark'' then ''light'' else ''dark'')"
    using assms by (auto simp: toggleTheme_def Let_def applyTheme_attribute)
  have second: "toggleTheme v (snd (toggleTheme v b)) = applyTheme v T (snd (toggleTheme v b))"
    using assms flip by (auto simp: toggleTheme_def [of v "snd (toggleTheme v b)"] Let_def)
  show ?thesis
    unfolding second
    using applyTheme_returned [THEN applyTheme_stores]
    by (simp add: applyTheme_attribute)
qed

theorem toggleTheme_twice_witness:
  "data_theme dark_page = Some ''dark'' \<and> ''dark'' \<in> {''light'', ''dark''}
   \<and> fst (toggleTheme Part_000 (snd (toggleTheme Part_000 dark_page))) = Inr ()
   \<and> data_theme (snd (toggleTheme Part_000 (snd (toggleTheme Part_000 dark_page)))) = Some ''dark''
   \<and> stored_theme (snd (toggleTheme Part_000 (snd (toggleTheme Part_000 dark_page)))) = Some ''dark''"
proof -
  have h1: "data_theme dark_page = Some ''dark''" by (simp add: page_defs)
  have h2: "''dark'' \<in> {''light'', ''dark''}" by simp
  have h3: "fst (toggleTheme Part_000 (snd (toggleTheme Part_000 dark_page))) = Inr ()"
    by (simp add: toggleTheme_def applyTheme_def updateToggleButton_def page_defs Let_def)
  show ?thesis
    using h1 h2 h3 toggleTheme_twice [OF h1 h2, where v = Part_000] by simp
qed

text \<open>
  C9. A non-empty string stored under \<^verbatim>\<open>theme\<close>, whatever it is, is what
  \<^verbatim>\<open>getInitialTheme\<close> returns, and after \<^verbatim>\<open>applyTheme\<close> of it that very string is the root
  attribute and the stored theme: nothing checks that it is \<^verbatim>\<open>light\<close> or \<^verbatim>\<open>dark\<close>. The
  write is a real one: on any page and for any string \<open>t\<close>, \<^verbatim>\<open>applyTheme\<close> sets the
  attribute to \<open>t\<close>, stores \<open>t\<close> when the store takes the write, and leaves the stored
  theme as it was when it does not.
\<close>

theorem stored_theme_not_validated:
  assumes "localStorage b = Some st" and "items st ''theme'' = Some s" and "s \<noteq> []"
  shows "getInitialTheme v b = Inr s
       \<and> data_theme (snd (applyTheme v s b)) = Some s
       \<and> stored_theme (snd (applyTheme v s b)) = Some s
       \<and> data_theme (snd (applyTheme v t b')) = Some t
       \<and> (takes_theme b' t \<longrightarrow> stored_theme (snd (applyTheme v t b')) = Some t)
       \<and> (\<not> takes_theme b' t \<longrightarrow> stored_theme (snd (applyTheme v t b')) = stored_theme b')"
proof -
  have "getInitialTheme v b = Inr s"
    using assms by (cases v) (simp_all add: getInitialTheme_def Let_def)
  moreover have "stored_theme (snd (applyTheme v s b)) = Some s"
  proof (cases "takes_theme b s")
    case True
    then show ?thesis by (rule applyTheme_stores)
  next
    case False
    have "stored_theme b = Some s" using assms by (simp add: stored_theme_def)
    with False show ?thesis by (simp add: applyTheme_refused)
  qed
  ultimately show ?thesis
    by (simp add: applyTheme_attribute applyTheme_stores applyTheme_refused)
qed

theorem stored_theme_not_validated_witness:
  "getInitialTheme Main_js sepia_page = Inr ''sepia''
   \<and> data_theme (snd (applyTheme Main_js ''sepia'' sepia_page)) = Some ''sepia''
   \<and> stored_theme (snd (applyTheme Main_js ''sepia'' sepia_page)) = Some ''sepia''
   \<and> takes_theme fresh_page ''plum''
   \<and> stored_theme fresh_page = None
   \<and> stored_theme (snd (applyTheme Main_js ''plum'' fresh_page)) = Some ''plum''
   \<and> \<not> takes_theme no_storage_page ''plum''
   \<and> stored_theme (snd (applyTheme Main_js ''plum'' no_storage_page)) = None"
proof -
  have h1: "localStorage sepia_page = Some (open_store\<lparr>items := [''theme'' \<mapsto> ''sepia'']\<rparr>)"
    by (simp add: sepia_page_def fresh_page_def)
  have h2: "items (open_store\<lparr>items := [''theme'' \<mapsto> ''sepia'']\<rparr>) ''theme'' = Some ''sepia''"
    by simp
  have h3: "''sepia'' \<noteq> []" by simp
  have h4: "takes_theme fresh_page ''plum''"
    and h5: "stored_theme fresh_page = None"
    and h6: "\<not> takes_theme no_storage_page ''plum''"
    and h7: "stored_theme no_storage_page = None"
    by (simp_all add: takes_theme_def stored_theme_def page_defs)
  show ?thesis
    using h4 h5 h6 h7
      stored_theme_not_validated [OF h1 h2 h3, where v = Main_js and t = "''plum''"
        and b' = fresh_page]
      stored_theme_not_validated [OF h1 h2 h3, where v = Main_js and t = "''plum''"
        and b' = no_storage_page]
    by simp
qed




subsection \<open>Once a theme is stored, system notifications change nothing\<close>

lemma stored_theme_dispatch:
  assumes "truthy (stored_theme b)"
  shows "truthy (stored_theme (dispatch v ev b))"
proof (cases ev)
  case ToggleClick
  show ?thesis
  proof (cases "takes_theme b (if data_theme b = Some ''dark'' then ''light'' else ''dark'')")
    case True
    then show ?thesis
      using assms by (simp add: ToggleClick toggleTheme_def Let_def applyTheme_stores truthy_def)
  next
    case False
    then show ?thesis
      using assms by (simp add: ToggleClick toggleTheme_def Let_def applyTheme_refused)
  qed
next
  case (SystemThemeChange m)
  with assms show ?thesis
    by (auto simp: systemThemeChanged_def stored_theme_def Let_def split: option.splits)
qed

lemma stored_theme_run:
  "truthy (stored_theme b) \<Longrightarrow> truthy (stored_theme (run v evs b))"
  unfolding run_def by (induction evs arbitrary: b) (simp_all add: stored_theme_dispatch)

lemma change_ignored:
  "truthy (stored_theme b) \<Longrightarrow> dispatch v (SystemThemeChange m) b = b"
  by (auto simp: systemThemeChanged_def stored_theme_def Let_def split: option.splits)

lemma getInitialTheme_nonempty:
  "getInitialTheme v b = Inr t \<Longrightarrow> t \<noteq> []"
  by (cases v) (auto simp: getInitialTheme_def Let_def split: option.splits if_splits)

lemma watchSystemTheme_stored:
  "stored_theme (snd (watchSystemTheme b)) = stored_theme b"
  by (simp add: watchSystemTheme_def stored_theme_def split: option.splits)

lemma init_stores:
  assumes "ThemeManager_init v b = (Inr (), b')"
  shows "truthy (stored_theme b')"
proof (cases "getInitialTheme v b")
  case (Inl e)
  with assms show ?thesis by (simp add: ThemeManager_init_def)
next
  case (Inr t)
  from getInitialTheme_nonempty [OF Inr] have t: "t \<noteq> []" .
  obtain r b1 where a: "applyTheme v t b = (r, b1)" by (cases "applyTheme v t b")
  obtain r2 b2 where w: "watchSystemTheme b1 = (r2, b2)" by (cases "watchSystemTheme b1")
  from assms Inr a have r: "r = Inr ()"
    by (cases r) (simp_all add: ThemeManager_init_def)
  with a have "fst (applyTheme v t b) = Inr ()" by simp
  from applyTheme_stores [OF applyTheme_returned [OF this], of v] a
  have s1: "stored_theme b1 = Some t" by simp
  from watchSystemTheme_stored [of b1] w have s2: "stored_theme b2 = stored_theme b1" by simp
  from assms Inr a r w have "stored_theme b' = stored_theme b2"
    by (cases r2) (auto simp: ThemeManager_init_def stored_theme_def split: option.splits)
  with s1 s2 t show ?thesis by (simp add: truthy_def)
qed

lemma click_returned_stores:
  assumes "click_listener b" and "fst (toggleTheme v b) = Inr ()"
  shows "truthy (stored_theme (dispatch v ToggleClick b))"
proof -
  from assms(2)
  have "fst (applyTheme v (if data_theme b = Some ''dark'' then ''light'' else ''dark'') b) = Inr ()"
    by (simp add: toggleTheme_def Let_def)
  from applyTheme_stores [OF applyTheme_returned [OF this], of v] assms(1)
  show ?thesis by (simp add: toggleTheme_def Let_def truthy_def)
qed

text \<open>
  C1. The listener registered by \<^verbatim>\<open>watchSystemTheme\<close> applies the theme the system
  reports only when nothing truthy is stored under \<^verbatim>\<open>theme\<close>, and leaves the page as it
  is otherwise. The script never removes the stored theme, so from a page where a theme
  is stored, whatever clicks and notifications follow, a notification changes nothing;
  this holds after every \<^verbatim>\<open>init\<close> that returns, since \<^verbatim>\<open>init\<close> stores the theme it
  starts with, hence also once the visitor has clicked the toggle control of such a
  page; and it holds on any page after a click whose \<^verbatim>\<open>toggleTheme\<close> returned.
\<close>

theorem system_change_respects_stored_theme:
  "(localStorage b \<noteq> None \<longrightarrow>
      systemThemeChanged v m b =
        (if truthy (stored_theme b) then (Inr (), b)
         else applyTheme v (if m then ''dark'' else ''light'') b))
   \<and> (truthy (stored_theme b) \<longrightarrow>
        dispatch v (SystemThemeChange m) (run v evs b) = run v evs b)
   \<and> (ThemeManager_init v b0 = (Inr (), b) \<longrightarrow>
        dispatch v (SystemThemeChange m) (run v evs (dispatch v ToggleClick b))
          = run v evs (dispatch v ToggleClick b))
   \<and> (ThemeManager_init v b0 = (Inr (), b) \<longrightarrow>
        dispatch v (SystemThemeChange m) (run v evs b) = run v evs b)
   \<and> (click_listener b \<and> fst (toggleTheme v b) = Inr () \<longrightarrow>
        dispatch v (SystemThemeChange m) (run v evs (dispatch v ToggleClick b))
          = run v evs (dispatch v ToggleClick b))"
proof (intro conjI impI)
  assume "localStorage b \<noteq> None"
  then show "systemThemeChanged v m b =
        (if truthy (stored_theme b) then (Inr (), b)
         else applyTheme v (if m then ''dark'' else ''light'') b)"
    by (auto simp: systemThemeChanged_def stored_theme_def Let_def)
next
  assume "truthy (stored_theme b)"
  then show "dispatch v (SystemThemeChange m) (run v evs b) = run v evs b"
    by (intro change_ignored stored_theme_run)
next
  assume "ThemeManager_init v b0 = (Inr (), b)"
  then have "truthy (stored_theme b)" by (rule init_stores)
  then have "truthy (stored_theme (dispatch v ToggleClick b))" by (rule stored_theme_dispatch)
  then show "dispatch v (SystemThemeChange m) (run v evs (dispatch v ToggleClick b))
          = run v evs (dispatch v ToggleClick b)"
    by (intro change_ignored stored_theme_run)
next
  assume "ThemeManager_init v b0 = (Inr (), b)"
  then have "truthy (stored_theme b)" by (rule init_stores)
  then show "dispatch v (SystemThemeChange m) (run v evs b) = run v evs b"
    by (intro change_ignored stored_theme_run)
next
  assume "click_listener b \<and> fst (toggleTheme v b) = Inr ()"
  then have "truthy (stored_theme (dispatch v ToggleClick b))"
    by (intro click_returned_stores) simp_all
  then show "dispatch v (SystemThemeChange m) (run v evs (dispatch v ToggleClick b))
          = run v evs (dispatch v ToggleClick b)"
    by (intro change_ignored stored_theme_run)
qed

theorem system_change_respects_stored_theme_witness:
  "ThemeManager_init Main_js full_page = (Inr (), loaded_page)
   \<and> localStorage loaded_page \<noteq> None \<and> truthy (stored_theme loaded_page)
   \<and> click_listener loaded_page \<and> change_listener loaded_page
   \<and> fst (toggleTheme Main_js loaded_page) = Inr ()
   \<and> systemThemeChanged Main_js False loaded_page = (Inr (), loaded_page)
   \<and> dispatch Main_js (SystemThemeChange False)
        (run Main_js [SystemThemeChange True] (dispatch Main_js ToggleClick loaded_page))
      = run Main_js [SystemThemeChange True] (dispatch Main_js ToggleClick loaded_page)
   \<and> dispatch Main_js (SystemThemeChange False) (run Main_js [ToggleClick] loaded_page)
      = run Main_js [ToggleClick] loaded_page"
proof -
  have i: "fst (ThemeManager_init Main_js full_page) = Inr ()"
    by (simp add: theme_defs page_defs Let_def)
  then have h0: "ThemeManager_init Main_js full_page = (Inr (), loaded_page)"
    unfolding loaded_page_def by (metis prod.collapse)
  have h1: "localStorage loaded_page \<noteq> None"
    and h2: "truthy (stored_theme loaded_page)"
    and h3: "click_listener loaded_page"
    and h4: "change_listener loaded_page"
    and h5: "fst (toggleTheme Main_js loaded_page) = Inr ()"
    by (simp_all add: loaded_page_def theme_defs page_defs Let_def)
  show ?thesis
    using h0 h1 h2 h3 h4 h5
      system_change_respects_stored_theme [where b = loaded_page and v = Main_js
        and m = False and evs = "[SystemThemeChange True]" and ?b0.0 = full_page]
      system_change_respects_stored_theme [where b = loaded_page and v = Main_js
        and m = False and evs = "[ToggleClick]" and ?b0.0 = full_page]
    by simp
qed

subsection \<open>Absent elements and absent browser APIs\<close>


lemma updateToggleButton_returns:
  "toggle_has_icon b \<Longrightarrow> fst (updateToggleButton v theme b) = Inr ()"
  by (auto simp: updateToggleButton_def toggle_has_icon_def split: option.splits)





text \<open>
  The toggle control is there and its icon sub-element is not: the icon is written
  without the check that the label gets, and the write throws.
\<close>

lemma updateToggleButton_without_icon:
  "updateToggleButton Main_js ''dark'' iconless_page = (Inl TypeError, iconless_page)"
  by (simp add: updateToggleButton_def page_defs)




section \<open>Properties of the anchor listener\<close>

text \<open>
  C7, as the claim has it, fails: the listener hands the href to
  \<^verbatim>\<open>document.querySelector\<close>, and an href such as \<^verbatim>\<open>#1abc\<close> is not a selector. The page
  has an element with the id \<^verbatim>\<open>1abc\<close>; the click prevents the default navigation, the
  query throws, and nothing is scrolled.
\<close>

theorem anchor_href_not_a_selector:
  "(8, ''1abc'') \<in> set (element_ids about_document)
   \<and> anchorClicked about_document ''#1abc''
       = (Inl SyntaxError, \<lparr>defaultPrevented = True, scrolled = []\<rparr>)"
  by (simp add: about_document_def anchorClicked_def querySelector_def name_start_def
      is_digit_def)

lemma find_holds: "find P xs = Some x \<Longrightarrow> P x"
  by (induction xs) (auto split: if_splits)

text \<open>
  C7, amended. A click on an anchor whose href is exactly \<^verbatim>\<open>#\<close> returns with the
  default navigation not prevented and nothing scrolled. With any other href the default
  is prevented, and the href is used as a selector: when \<^verbatim>\<open>document.querySelector(href)\<close>
  finds an element, that element is scrolled into view once (smoothly, to the top) and
  the listener returns; when it finds none, nothing is scrolled and the listener returns;
  when it throws, nothing is scrolled and the listener throws. For \<^verbatim>\<open>#\<close> followed by an
  identifier the element found is the first one with that id, if there is one; \<^verbatim>\<open>#\<close>
  followed by a digit is not a selector, whatever the ids of the page.
\<close>

theorem anchor_click_cases:
  "(href = ''#'' \<longrightarrow>
      anchorClicked doc href = (Inr (), \<lparr>defaultPrevented = False, scrolled = []\<rparr>))
   \<and> (href \<noteq> ''#'' \<longrightarrow> defaultPrevented (snd (anchorClicked doc href)))
   \<and> (href \<noteq> ''#'' \<and> querySelector doc href = Inr (Some target) \<longrightarrow>
        anchorClicked doc href
          = (Inr (), \<lparr>defaultPrevented = True, scrolled = [(target, ''smooth'', ''start'')]\<rparr>))
   \<and> (href \<noteq> ''#'' \<and> querySelector doc href = Inr None \<longrightarrow>
        anchorClicked doc href = (Inr (), \<lparr>defaultPrevented = True, scrolled = []\<rparr>))
   \<and> (href \<noteq> ''#'' \<and> querySelector doc href = Inl e \<longrightarrow>
        anchorClicked doc href = (Inl e, \<lparr>defaultPrevented = True, scrolled = []\<rparr>))
   \<and> (css_identifier name \<and> name \<in> snd ` set (element_ids doc) \<longrightarrow>
        (\<exists>found. find (\<lambda>entry. snd entry = name) (element_ids doc) = Some (found, name)
           \<and> anchorClicked doc (CHR ''#'' # name)
               = (Inr (), \<lparr>defaultPrevented = True,
                           scrolled = [(found, ''smooth'', ''start'')]\<rparr>)))
   \<and> (css_identifier name \<and> name \<notin> snd ` set (element_ids doc) \<longrightarrow>
        anchorClicked doc (CHR ''#'' # name)
          = (Inr (), \<lparr>defaultPrevented = True, scrolled = []\<rparr>))
   \<and> (is_digit d \<longrightarrow>
        anchorClicked doc (CHR ''#'' # d # rest)
          = (Inl SyntaxError, \<lparr>defaultPrevented = True, scrolled = []\<rparr>))"
proof (intro conjI impI)
  assume "href = ''#''"
  then show "anchorClicked doc href = (Inr (), \<lparr>defaultPrevented = False, scrolled = []\<rparr>)"
    by (simp add: anchorClicked_def)
next
  assume "href \<noteq> ''#''"
  then show "defaultPrevented (snd (anchorClicked doc href))"
    by (simp add: anchorClicked_def split: sum.splits option.splits)
next
  assume "href \<noteq> ''#'' \<and> querySelector doc href = Inr (Some target)"
  then show "anchorClicked doc href
          = (Inr (), \<lparr>defaultPrevented = True, scrolled = [(target, ''smooth'', ''start'')]\<rparr>)"
    by (simp add: anchorClicked_def)
next
  assume "href \<noteq> ''#'' \<and> querySelector doc href = Inr None"
  then show "anchorClicked doc href = (Inr (), \<lparr>defaultPrevented = True, scrolled = []\<rparr>)"
    by (simp add: anchorClicked_def)
next
  assume "href \<noteq> ''#'' \<and> querySelector doc href = Inl e"
  then show "anchorClicked doc href = (Inl e, \<lparr>defaultPrevented = True, scrolled = []\<rparr>)"
    by (simp add: anchorClicked_def)
next
  assume a: "css_identifier name \<and> name \<in> snd ` set (element_ids doc)"
  then obtain entry where "entry \<in> set (element_ids doc)" and "snd entry = name" by auto
  with find_None_iff [of "\<lambda>entry. snd entry = name" "element_ids doc"]
  have "find (\<lambda>entry. snd entry = name) (element_ids doc) \<noteq> None"
    by blast
  then obtain found n where f: "find (\<lambda>entry. snd entry = name) (element_ids doc) = Some (found, n)"
    by (cases "find (\<lambda>entry. snd entry = name) (element_ids doc)") auto
  from find_holds [OF this] have "n = name" by simp
  with f have f': "find (\<lambda>entry. snd entry = name) (element_ids doc) = Some (found, name)"
    by simp
  from a have "CHR ''#'' # name \<noteq> ''#''" by auto
  with a f' have "anchorClicked doc (CHR ''#'' # name)
               = (Inr (), \<lparr>defaultPrevented = True,
                           scrolled = [(found, ''smooth'', ''start'')]\<rparr>)"
    by (simp add: anchorClicked_def querySelector_def)
  with f' show "\<exists>found. find (\<lambda>entry. snd entry = name) (element_ids doc) = Some (found, name)
           \<and> anchorClicked doc (CHR ''#'' # name)
               = (Inr (), \<lparr>defaultPrevented = True,
                           scrolled = [(found, ''smooth'', ''start'')]\<rparr>)"
    by blast
next
  assume a: "css_identifier name \<and> name \<notin> snd ` set (element_ids doc)"
  then have "find (\<lambda>entry. snd entry = name) (element_ids doc) = None"
    by (force simp: find_None_iff)
  moreover from a have "CHR ''#'' # name \<noteq> ''#''" by auto
  ultimately show "anchorClicked doc (CHR ''#'' # name)
          = (Inr (), \<lparr>defaultPrevented = True, scrolled = []\<rparr>)"
    using a by (simp add: anchorClicked_def querySelector_def)
next
  assume d: "is_digit d"
  then have "\<not> name_start d" "d \<noteq> CHR ''-''"
    by (auto simp: is_digit_def name_start_def Let_def)
  then have "\<not> css_identifier (d # rest)" by simp
  with d show "anchorClicked doc (CHR ''#'' # d # rest)
          = (Inl SyntaxError, \<lparr>defaultPrevented = True, scrolled = []\<rparr>)"
    by (simp add: anchorClicked_def querySelector_def)
qed

theorem anchor_click_cases_witness:
  "anchorClicked about_document ''#'' = (Inr (), \<lparr>defaultPrevented = False, scrolled = []\<rparr>)
   \<and> ''#about'' \<noteq> ''#'' \<and> querySelector about_document ''#about'' = Inr (Some 7)
   \<and> css_identifier ''about'' \<and> ''about'' \<in> snd ` set (element_ids about_document)
   \<and> anchorClicked about_document ''#about''
       = (Inr (), \<lparr>defaultPrevented = True, scrolled = [(7, ''smooth'', ''start'')]\<rparr>)
   \<and> ''#contact'' \<noteq> ''#'' \<and> querySelector about_document ''#contact'' = Inr None
   \<and> css_identifier ''contact'' \<and> ''contact'' \<notin> snd ` set (element_ids about_document)
   \<and> anchorClicked about_document ''#contact''
       = (Inr (), \<lparr>defaultPrevented = True, scrolled = []\<rparr>)
   \<and> ''#1abc'' \<noteq> ''#'' \<and> querySelector about_document ''#1abc'' = Inl SyntaxError
   \<and> is_digit CHR ''1''
   \<and> anchorClicked about_document ''#1abc''
       = (Inl SyntaxError, \<lparr>defaultPrevented = True, scrolled = []\<rparr>)"
proof -
  have c: "name_start CHR ''a''" "name_start CHR ''b''" "name_start CHR ''o''"
    "name_start CHR ''u''" "name_start CHR ''t''" "name_start CHR ''c''"
    "name_start CHR ''n''" "\<not> name_start CHR ''1''" "is_digit CHR ''1''"
    by (simp_all add: name_start_def is_digit_def)
  have h1: "''#about'' \<noteq> ''#'' \<and> querySelector about_document ''#about'' = Inr (Some 7)"
    and h2: "css_identifier ''about'' \<and> ''about'' \<in> snd ` set (element_ids about_document)"
    and h3: "''#contact'' \<noteq> ''#'' \<and> querySelector about_document ''#contact'' = Inr None"
    and h4: "css_identifier ''contact''
             \<and> ''contact'' \<notin> snd ` set (element_ids about_document)"
    and h5: "''#1abc'' \<noteq> ''#'' \<and> querySelector about_document ''#1abc'' = Inl SyntaxError"
    by (simp_all add: about_document_def querySelector_def name_char_def c)
  show ?thesis
    using h1 h2 h3 h4 h5 c(9)
      anchor_click_cases [where href = "''#''" and doc = about_document]
      anchor_click_cases [where href = "''#about''" and doc = about_document and target = 7
        and name = "''about''"]
      anchor_click_cases [where href = "''#contact''" and doc = about_document
        and name = "''contact''"]
      anchor_click_cases [where href = "''#1abc''" and doc = about_document
        and e = SyntaxError and d = "CHR ''1''" and rest = "''abc''"]
    by simp
qed

section \<open>Properties of the scroll animations\<close>

lemma observed_onEntry: "set (observed (onEntry e s)) \<subseteq> set (observed s)"
  by (cases e) (auto simp: unobserve_def)

lemma observed_callback: "set (observed (intersectionCallback es s)) \<subseteq> set (observed s)"
  unfolding intersectionCallback_def
proof (induction es arbitrary: s)
  case Nil
  show ?case by simp
next
  case (Cons e es)
  have "set (observed (fold onEntry es (onEntry e s))) \<subseteq> set (observed (onEntry e s))"
    by (rule Cons.IH)
  also have "\<dots> \<subseteq> set (observed s)" by (rule observed_onEntry)
  finally show ?case by simp
qed

lemma observed_notify: "set (observed (notify batch s)) \<subseteq> set (observed s)"
  unfolding notify_def by (rule observed_callback)

lemma observed_notifications: "set (observed (notifications batches s)) \<subseteq> set (observed s)"
  unfolding notifications_def
proof (induction batches arbitrary: s)
  case Nil
  show ?case by simp
next
  case (Cons batch batches)
  have "set (observed (fold notify batches (notify batch s))) \<subseteq> set (observed (notify batch s))"
    by (rule Cons.IH)
  also have "\<dots> \<subseteq> set (observed s)" by (rule observed_notify)
  finally show ?case by simp
qed

text \<open>How often a class list holds the marker: a round of the callback never takes it past one.\<close>

lemma marker_count_add:
  "count_list (classList_add c cs) c' \<le> max 1 (count_list cs c')"
  by (auto simp: classList_add_def)

lemma marker_count_onEntry:
  "count_list (classList (onEntry e s) x) c \<le> max 1 (count_list (classList s x) c)"
proof (cases e)
  case (Pair t i)
  show ?thesis
    using marker_count_add [of "''animate-fade-in''" "classList s t" c]
    by (simp add: Pair unobserve_def)
qed

lemma marker_count_callback:
  "count_list (classList (intersectionCallback es s) x) c \<le> max 1 (count_list (classList s x) c)"
  unfolding intersectionCallback_def
proof (induction es arbitrary: s)
  case Nil
  show ?case by simp
next
  case (Cons e es)
  have "count_list (classList (fold onEntry es (onEntry e s)) x) c
          \<le> max 1 (count_list (classList (onEntry e s) x) c)"
    by (rule Cons.IH)
  also have "\<dots> \<le> max 1 (max 1 (count_list (classList s x) c))"
    using marker_count_onEntry [of e s x c] by simp
  finally show ?case by simp
qed

lemma marker_count_notifications:
  "count_list (classList (notifications batches s) x) c \<le> max 1 (count_list (classList s x) c)"
  unfolding notifications_def
proof (induction batches arbitrary: s)
  case Nil
  show ?case by simp
next
  case (Cons batch batches)
  have "count_list (classList (fold notify batches (notify batch s)) x) c
          \<le> max 1 (count_list (classList (notify batch s) x) c)"
    by (rule Cons.IH)
  also have "\<dots> \<le> max 1 (max 1 (count_list (classList s x) c))"
    using marker_count_callback [of "filter (\<lambda>entry. fst entry \<in> set (observed s)) batch" s x c]
    by (simp add: notify_def)
  finally show ?case by simp
qed

lemma marker_kept_onEntry:
  "c \<in> set (classList s x) \<Longrightarrow> c \<in> set (classList (onEntry e s) x)"
  by (cases e) (auto simp: unobserve_def classList_add_def)

lemma marker_kept_callback:
  "c \<in> set (classList s x) \<Longrightarrow> c \<in> set (classList (intersectionCallback es s) x)"
  unfolding intersectionCallback_def
  by (induction es arbitrary: s) (simp_all add: marker_kept_onEntry)

lemma marked_after_callback:
  "(x, True) \<in> set es \<Longrightarrow> ''animate-fade-in'' \<in> set (classList (intersectionCallback es s) x)"
proof (induction es arbitrary: s)
  case Nil
  then show ?case by simp
next
  case (Cons e es)
  show ?case
  proof (cases "e = (x, True)")
    case True
    have "''animate-fade-in'' \<in> set (classList (onEntry e s) x)"
      by (simp add: True unobserve_def classList_add_def)
    from marker_kept_callback [OF this, of es] show ?thesis
      by (simp add: intersectionCallback_def)
  next
    case False
    with Cons.prems have "(x, True) \<in> set es" by simp
    from Cons.IH [OF this, of "onEntry e s"] show ?thesis
      by (simp add: intersectionCallback_def)
  qed
qed

lemma unobserved_after_callback:
  "(x, True) \<in> set es \<Longrightarrow> x \<notin> set (observed (intersectionCallback es s))"
  unfolding intersectionCallback_def
proof (induction es arbitrary: s)
  case Nil
  then show ?case by simp
next
  case (Cons e es)
  show ?case
  proof (cases "e = (x, True)")
    case True
    have "x \<notin> set (observed (onEntry e s))" by (simp add: True unobserve_def)
    with observed_callback [of es "onEntry e s"] show ?thesis
      by (auto simp: intersectionCallback_def)
  next
    case False
    with Cons.prems have "(x, True) \<in> set es" by simp
    from Cons.IH [OF this] show ?thesis by simp
  qed
qed

lemma onEntry_without_intersecting:
  "e \<noteq> (x, True) \<Longrightarrow>
     classList (onEntry e s) x = classList s x
     \<and> (x \<in> set (observed (onEntry e s))) = (x \<in> set (observed s))"
  by (cases e) (auto simp: unobserve_def)

lemma callback_without_intersecting:
  "(x, True) \<notin> set es \<Longrightarrow>
     classList (intersectionCallback es s) x = classList s x
     \<and> (x \<in> set (observed (intersectionCallback es s))) = (x \<in> set (observed s))"
  unfolding intersectionCallback_def
proof (induction es arbitrary: s)
  case Nil
  show ?case by simp
next
  case (Cons e es)
  from Cons.prems have e: "e \<noteq> (x, True)" and es: "(x, True) \<notin> set es" by auto
  have "classList (fold onEntry es (onEntry e s)) x = classList (onEntry e s) x
        \<and> (x \<in> set (observed (fold onEntry es (onEntry e s))))
            = (x \<in> set (observed (onEntry e s)))"
    by (rule Cons.IH [OF es])
  with onEntry_without_intersecting [OF e, of s] show ?case by simp
qed

lemma notify_without_intersecting:
  assumes "(x, True) \<notin> set batch"
  shows "classList (notify batch s) x = classList s x
       \<and> (x \<in> set (observed (notify batch s))) = (x \<in> set (observed s))"
proof -
  from assms have "(x, True) \<notin> set (filter (\<lambda>entry. fst entry \<in> set (observed s)) batch)"
    by simp
  from callback_without_intersecting [OF this] show ?thesis by (simp add: notify_def)
qed

lemma notify_unobserved:
  assumes "x \<notin> set (observed s)"
  shows "classList (notify batch s) x = classList s x"
proof -
  from assms have "(x, True) \<notin> set (filter (\<lambda>entry. fst entry \<in> set (observed s)) batch)"
    by auto
  from callback_without_intersecting [OF this] show ?thesis by (simp add: notify_def)
qed

lemma notifications_unobserved:
  "x \<notin> set (observed s) \<Longrightarrow> classList (notifications batches s) x = classList s x"
  unfolding notifications_def
proof (induction batches arbitrary: s)
  case Nil
  show ?case by simp
next
  case (Cons batch batches)
  from Cons.prems observed_notify [of batch s] have "x \<notin> set (observed (notify batch s))"
    by blast
  from Cons.IH [OF this] notify_unobserved [OF Cons.prems, of batch] show ?case by simp
qed

lemma observe_step:
  "set (observed (observe el (case v of Main_js \<Rightarrow> s\<lparr>opacity := (opacity s)(el \<mapsto> ''0'')\<rparr>
                                | Part_000 \<Rightarrow> s))) = insert el (set (observed s))
   \<and> classList (observe el (case v of Main_js \<Rightarrow> s\<lparr>opacity := (opacity s)(el \<mapsto> ''0'')\<rparr>
                                  | Part_000 \<Rightarrow> s)) = classList s"
  by (cases v) (auto simp: observe_def)

lemma fold_observing:
  assumes "\<And>el s. set (observed (f el s)) = insert el (set (observed s))
                    \<and> classList (f el s) = classList s"
  shows "set (observed (fold f cs s0)) = set (observed s0) \<union> set cs
       \<and> classList (fold f cs s0) = classList s0"
  by (induction cs arbitrary: s0) (simp_all add: assms)

lemma observing:
  "set (observed (initScrollAnimations v candidates classes opacities)) = set candidates
   \<and> classList (initScrollAnimations v candidates classes opacities) = classes"
  unfolding initScrollAnimations_def
  using fold_observing [where f = "\<lambda>el s. observe el
      (case v of Main_js \<Rightarrow> s\<lparr>opacity := (opacity s)(el \<mapsto> ''0'')\<rparr> | Part_000 \<Rightarrow> s)"
      and cs = candidates
      and ?s0.0 = "\<lparr>observed = [], classList = classes, opacity = opacities\<rparr>",
      OF observe_step]
  by simp

text \<open>
  C6. \<^verbatim>\<open>initScrollAnimations\<close> puts the candidates, and no other element, under
  observation, with their class lists as they were. Over any sequence of notifications,
  whatever their entries, the class list of an element gains the marker
  \<^verbatim>\<open>animate-fade-in\<close> once at most (it never holds the marker more than once, unless it
  did before). A notification with an intersecting entry for an observed element leaves
  the marker in its class list and the element unobserved; an element that is not
  observed is never observed again and its class list is never touched again, however
  often it is reported; and a notification with no intersecting entry for an element
  leaves its class list and its observation as they are.
\<close>

theorem reveal_one_shot:
  "set (observed (initScrollAnimations v candidates classes opacities)) = set candidates
   \<and> classList (initScrollAnimations v candidates classes opacities) = classes
   \<and> count_list (classList (notifications batches s) x) ''animate-fade-in''
       \<le> max 1 (count_list (classList s x) ''animate-fade-in'')
   \<and> ((x, True) \<in> set batch \<and> x \<in> set (observed s) \<longrightarrow>
        x \<notin> set (observed (notify batch s))
        \<and> ''animate-fade-in'' \<in> set (classList (notify batch s) x))
   \<and> (x \<notin> set (observed s) \<longrightarrow>
        x \<notin> set (observed (notifications batches s))
        \<and> classList (notifications batches s) x = classList s x)
   \<and> ((x, True) \<notin> set batch \<longrightarrow>
        classList (notify batch s) x = classList s x
        \<and> (x \<in> set (observed (notify batch s))) = (x \<in> set (observed s)))"
proof (intro conjI impI)
  show "set (observed (initScrollAnimations v candidates classes opacities)) = set candidates"
    by (simp add: observing)
  show "classList (initScrollAnimations v candidates classes opacities) = classes"
    by (simp add: observing)
  show "count_list (classList (notifications batches s) x) ''animate-fade-in''
       \<le> max 1 (count_list (classList s x) ''animate-fade-in'')"
    by (rule marker_count_notifications)
next
  assume "(x, True) \<in> set batch \<and> x \<in> set (observed s)"
  then show "x \<notin> set (observed (notify batch s))"
    unfolding notify_def by (intro unobserved_after_callback) simp
next
  assume "(x, True) \<in> set batch \<and> x \<in> set (observed s)"
  then show "''animate-fade-in'' \<in> set (classList (notify batch s) x)"
    unfolding notify_def by (intro marked_after_callback) simp
next
  assume "x \<notin> set (observed s)"
  with observed_notifications [of batches s]
  show "x \<notin> set (observed (notifications batches s))" by blast
next
  assume "x \<notin> set (observed s)"
  then show "classList (notifications batches s) x = classList s x"
    by (rule notifications_unobserved)
next
  assume "(x, True) \<notin> set batch"
  then show "classList (notify batch s) x = classList s x"
    by (simp add: notify_without_intersecting)
next
  assume "(x, True) \<notin> set batch"
  then show "(x \<in> set (observed (notify batch s))) = (x \<in> set (observed s))"
    by (simp add: notify_without_intersecting)
qed

theorem reveal_one_shot_witness:
  "set (observed two_cards) = {1, 2}
   \<and> count_list (classList (notifications
         [[(1, False), (2, True)], [(1::nat, True), (1, False), (1, True)], [(1, True)]]
         two_cards) 1) ''animate-fade-in'' \<le> 1
   \<and> (1::nat, True) \<in> set [(1::nat, True), (1, False), (1, True)] \<and> 1 \<in> set (observed two_cards)
   \<and> 1 \<notin> set (observed (notify [(1::nat, True), (1, False), (1, True)] two_cards))
   \<and> ''animate-fade-in'' \<in> set (classList (notify [(1::nat, True), (1, False), (1, True)] two_cards) 1)
   \<and> 3 \<notin> set (observed two_cards)
   \<and> 3 \<notin> set (observed (notifications [[(3, True)]] two_cards))
   \<and> classList (notifications [[(3, True)]] two_cards) 3 = classList two_cards 3
   \<and> (2::nat, True) \<notin> set [(1::nat, True), (1, False), (1, True)]
   \<and> classList (notify [(1::nat, True), (1, False), (1, True)] two_cards) 2 = classList two_cards 2
   \<and> 2 \<in> set (observed (notify [(1::nat, True), (1, False), (1, True)] two_cards))"
proof -
  have h0: "set (observed two_cards) = {1, 2}"
    and h1: "count_list (classList two_cards 1) ''animate-fade-in'' = 0"
    by (simp_all add: two_cards_def initScrollAnimations_def observe_def)
  have h2: "(1::nat, True) \<in> set [(1::nat, True), (1, False), (1, True)] \<and> 1 \<in> set (observed two_cards)"
    and h3: "3 \<notin> set (observed two_cards)"
    and h4: "(2::nat, True) \<notin> set [(1::nat, True), (1, False), (1, True)]"
    and h5: "2 \<in> set (observed two_cards)"
    by (simp_all add: h0)
  show ?thesis
    using h0 h1 h2 h3 h4 h5
      reveal_one_shot [where s = two_cards and x = 1
        and batches = "[[(1, False), (2, True)], [(1::nat, True), (1, False), (1, True)], [(1, True)]]"
        and batch = "[(1::nat, True), (1, False), (1, True)]"]
      reveal_one_shot [where s = two_cards and x = 3 and batches = "[[(3, True)]]"]
      reveal_one_shot [where s = two_cards and x = 2
        and batch = "[(1::nat, True), (1, False), (1, True)]"]
    by simp
qed

section \<open>Properties of the form listener\<close>

text \<open>
  C8, as the claim has it, fails: \<^verbatim>\<open>reset()\<close> does not empty a control, it puts back the
  default value of the markup. A control with the default text \<^verbatim>\<open>Your message\<close> in which
  the visitor typed \<^verbatim>\<open>hello\<close> shows \<^verbatim>\<open>Your message\<close> after the submission.
\<close>

theorem submit_restores_default_text:
  "map field_value (controls (formSubmitted prefilled_form)) = [''Your message'']"
  by (simp add: formSubmitted_def reset_def prefilled_form_def)

text \<open>
  C8, amended. On every submission the listener prevents the default action, so the
  browser sends no request; it shows one acknowledgement; and it puts every control back
  to its default value, which empties all controls when every default is empty.
\<close>

theorem submit_resets_form:
  "\<not> request_sent (formSubmitted form)
   \<and> alerts (formSubmitted form) = [acknowledgement]
   \<and> map field_value (controls (formSubmitted form)) = map default_value form
   \<and> (list_all (\<lambda>f. default_value f = []) form \<longrightarrow>
        list_all (\<lambda>f. field_value f = []) (controls (formSubmitted form)))"
  by (induction form) (simp_all add: formSubmitted_def request_sent_def reset_def)

theorem submit_resets_form_witness:
  "list_all (\<lambda>f. default_value f = []) blank_form
   \<and> \<not> request_sent (formSubmitted blank_form)
   \<and> length (alerts (formSubmitted blank_form)) = 1
   \<and> list_all (\<lambda>f. field_value f = []) (controls (formSubmitted blank_form))"
proof -
  have h: "list_all (\<lambda>f. default_value f = []) blank_form"
    by (simp add: blank_form_def)
  show ?thesis
    using h submit_resets_form [where form = blank_form] by simp
qed

end
